theory Spec2Isabelle
  imports Complex_Main "HOL-Library.Word"
begin

section \<open>The Taiyi chain client (main.js): data model\<close>

text \<open>
  The client is dynamically typed JavaScript, and several of its paths depend on what
  JavaScript does with a missing argument, a plain object used as a \<open>Headers\<close> object,
  an undeclared identifier or a call of a non-function. The values the code handles are
  therefore modelled as a datatype of JavaScript values: \<open>undefined\<close>, \<open>null\<close>,
  booleans, numbers, strings, plain
  objects (keys in insertion order) and \<open>Headers\<close> objects (name and value pairs in
  append order). None of these values is callable.
\<close>

text \<open>
  A JavaScript number is a finite value, \<open>NaN\<close> or an infinity. Finite values are
  modelled as rationals: every finite double is one, and the comparisons of the code
  (with 0 and with 65535) are exact on them.
\<close>

datatype number = Finite rat | NaN | PosInfinity | NegInfinity

datatype js =
    JUndefined
  | JNull
  | JBool bool
  | JNum number
  | JStr string
  | JObj "(string \<times> js) list"
  | JHeaders "(string \<times> string) list"

text \<open>
  Everything the code throws is a value: \<open>new Error(msg)\<close> and the built-in
  \<open>TypeError\<close>, \<open>ReferenceError\<close> and \<open>SyntaxError\<close>. A rejected promise that is
  awaited (or returned from an async function) is the same value for the caller.
\<close>

datatype error =
    Error string
  | TypeError string
  | ReferenceError string
  | SyntaxError string

text \<open>The private fields of \<open>class TaiyiClient\<close> (lines 47 to 54).\<close>

record TaiyiClient =
  accessID :: string
  privateKey :: "8 word list"
  apiBase :: string
  domain :: string
  nonce :: string
  sessionID :: js
  timeout :: js
  localIP :: js

text \<open>
  A \<open>Request\<close> as the transport receives it, and the part of a \<open>Response\<close> the code
  reads: \<open>ok\<close> is a boolean property, \<open>status\<close> and \<open>statusText\<close> describe the
  transport status, \<open>body_text\<close> is the text that \<open>resp.json()\<close> decodes.
\<close>

record request =
  req_url :: string
  req_method :: string
  req_headers :: "(string \<times> string) list"
  req_body :: "string option"

record response =
  ok :: bool
  status :: int
  statusText :: string
  body_text :: string

text \<open>
  The platform and the imported libraries are parameters of the model: the clock
  (\<open>new Date().toISOString()\<close>), \<open>Strings.random\<close>, \<open>ed25519.sign\<close> (which may throw),
  \<open>btoa\<close>, \<open>CryptoJS.SHA256\<close>, \<open>CryptoJS.enc.Base64.stringify\<close>, \<open>JSON.stringify\<close>,
  \<open>JSON.parse\<close> (which may throw), the \<open>pathname\<close> of \<open>new URL(s)\<close> (\<open>None\<close> when
  the constructor throws its TypeError), \<open>Number(s)\<close> on a string, \<open>String(x)\<close> on a
  number that is not an integer below \<open>1e21\<close> in absolute value, and \<open>fetch\<close> (an error
  when the promise rejects).
\<close>

record platform =
  toISOString_now :: string
  Strings_random :: "nat \<Rightarrow> string"
  ed25519_sign :: "string \<Rightarrow> 8 word list \<Rightarrow> error + string"
  btoa :: "string \<Rightarrow> string"
  SHA256 :: "string \<Rightarrow> 8 word list"
  Base64_stringify :: "8 word list \<Rightarrow> string"
  JSON_stringify :: "js \<Rightarrow> string"
  JSON_parse :: "string \<Rightarrow> error + js"
  URL_pathname :: "string \<Rightarrow> string option"
  Number_of_string :: "string \<Rightarrow> number"
  Number_toString :: "rat \<Rightarrow> string"
  fetch :: "request \<Rightarrow> error + response"

section \<open>Constants (lines 9 to 26)\<close>

definition APIVersion :: string where
  "APIVersion = ''1''"

definition projectName :: string where
  "projectName = ''Taiyi''"

definition headerNameSession :: string where
  "headerNameSession = projectName @ ''-Session''"

definition headerNameTimestamp :: string where
  "headerNameTimestamp = projectName @ ''-Timestamp''"

definition headerNameSignature :: string where
  "headerNameSignature = projectName @ ''-Signature''"

definition headerNameSignatureAlgorithm :: string where
  "headerNameSignatureAlgorithm = projectName @ ''-SignatureAlgorithm''"

definition defaultDomainName :: string where
  "defaultDomainName = ''system''"

definition defaultDomainHost :: string where
  "defaultDomainHost = ''localhost''"

definition signatureMethodEd25519 :: string where
  "signatureMethodEd25519 = ''ed25519''"

definition headerContentType :: string where
  "headerContentType = ''Content-Type''"

definition contentTypeJSON :: string where
  "contentTypeJSON = ''application/json''"

definition payloadPathErrorCode :: string where
  "payloadPathErrorCode = ''error_code''"

definition payloadPathErrorMessage :: string where
  "payloadPathErrorMessage = ''message''"

definition payloadPathData :: string where
  "payloadPathData = ''data''"

section \<open>JavaScript semantics the code relies on\<close>

text \<open>Decimal digits of a natural number, and the decimal form of an integer.\<close>

fun digits :: "nat \<Rightarrow> string" where
  "digits n = (if n < 10 then [''0123456789'' ! n]
               else digits (n div 10) @ [''0123456789'' ! (n mod 10)])"

declare digits.simps [simp del]

definition show_int :: "int \<Rightarrow> string" where
  "show_int i = (if i < 0 then CHR ''-'' # digits (nat (- i)) else digits (nat i))"

text \<open>
  \<open>String(x)\<close> for a number: an integer below \<open>1e21\<close> in absolute value is printed in
  decimal; what JavaScript prints for any other finite number (a fraction, or exponent
  notation from \<open>1e21\<close> on) is left to the platform.
\<close>

fun number_to_string :: "platform \<Rightarrow> number \<Rightarrow> string" where
  "number_to_string env NaN = ''NaN''"
| "number_to_string env PosInfinity = ''Infinity''"
| "number_to_string env NegInfinity = ''-Infinity''"
| "number_to_string env (Finite q) =
     (if q = of_int \<lfloor>q\<rfloor> \<and> \<bar>q\<bar> < 1000000000000000000000
      then show_int \<lfloor>q\<rfloor> else Number_toString env q)"

text \<open>\<open>String(v)\<close>: what string concatenation, \<open>new URL(v)\<close> and a header value use.\<close>

fun to_string :: "platform \<Rightarrow> js \<Rightarrow> string" where
  "to_string env JUndefined = ''undefined''"
| "to_string env JNull = ''null''"
| "to_string env (JBool b) = (if b then ''true'' else ''false'')"
| "to_string env (JNum n) = number_to_string env n"
| "to_string env (JStr s) = s"
| "to_string env (JObj kvs) = ''[object Object]''"
| "to_string env (JHeaders hs) = ''[object Headers]''"

text \<open>
  \<open>Number(v)\<close>, the conversion a comparison with a number applies to its other operand:
  an object is first converted to its string.
\<close>

fun to_number :: "platform \<Rightarrow> js \<Rightarrow> number" where
  "to_number env JUndefined = NaN"
| "to_number env JNull = Finite 0"
| "to_number env (JBool b) = Finite (if b then 1 else 0)"
| "to_number env (JNum n) = n"
| "to_number env (JStr s) = Number_of_string env s"
| "to_number env (JObj kvs) = Number_of_string env ''[object Object]''"
| "to_number env (JHeaders hs) = Number_of_string env ''[object Headers]''"

text \<open>
  \<open>a < b\<close> on numbers is false when either side is \<open>NaN\<close>. \<open>v <= n\<close> and \<open>v > n\<close> for
  a value \<open>v\<close> and a number \<open>n\<close> convert \<open>v\<close> to a number; \<open>v <= n\<close> is the negation
  of \<open>n < v\<close> unless a side is \<open>NaN\<close>, when it is false.
\<close>

fun number_less :: "number \<Rightarrow> number \<Rightarrow> bool" where
  "number_less NaN b = False"
| "number_less a NaN = False"
| "number_less (Finite x) (Finite y) = (x < y)"
| "number_less (Finite x) PosInfinity = True"
| "number_less (Finite x) NegInfinity = False"
| "number_less PosInfinity b = False"
| "number_less NegInfinity NegInfinity = False"
| "number_less NegInfinity b = True"

definition js_le :: "platform \<Rightarrow> js \<Rightarrow> number \<Rightarrow> bool" where
  "js_le env v n = (to_number env v \<noteq> NaN \<and> n \<noteq> NaN \<and> \<not> number_less n (to_number env v))"

definition js_gt :: "platform \<Rightarrow> js \<Rightarrow> number \<Rightarrow> bool" where
  "js_gt env v n = number_less n (to_number env v)"

text \<open>Truthiness, as \<open>if (payload)\<close> tests it.\<close>

fun truthy :: "js \<Rightarrow> bool" where
  "truthy JUndefined = False"
| "truthy JNull = False"
| "truthy (JBool b) = b"
| "truthy (JNum n) = (n \<noteq> Finite 0 \<and> n \<noteq> NaN)"
| "truthy (JStr s) = (s \<noteq> [])"
| "truthy (JObj kvs) = True"
| "truthy (JHeaders hs) = True"

text \<open>
  Reading a property \<open>v[k]\<close>: a TypeError on \<open>undefined\<close> and \<open>null\<close>, the stored value
  or \<open>undefined\<close> on an object, \<open>undefined\<close> on the other values.
\<close>

fun get_prop :: "js \<Rightarrow> string \<Rightarrow> error + js" where
  "get_prop JUndefined k = Inl (TypeError (''Cannot read properties of undefined (reading '' @ k @ '')''))"
| "get_prop JNull k = Inl (TypeError (''Cannot read properties of null (reading '' @ k @ '')''))"
| "get_prop (JObj kvs) k = Inr (case map_of kvs k of None \<Rightarrow> JUndefined | Some v \<Rightarrow> v)"
| "get_prop v k = Inr JUndefined"

text \<open>
  Assigning a property of an object literal: an existing key keeps its position, a new
  key is added last.
\<close>

fun obj_set :: "(string \<times> js) list \<Rightarrow> string \<Rightarrow> js \<Rightarrow> (string \<times> js) list" where
  "obj_set [] k v = [(k, v)]"
| "obj_set (p # ps) k v = (if fst p = k then (k, v) # ps else p # obj_set ps k v)"

text \<open>
  Calling a value. No value of type \<open>js\<close> is a function, so the call throws the
  TypeError JavaScript throws for a call of a non-function.
\<close>

definition js_call :: "js \<Rightarrow> string \<Rightarrow> error + js" where
  "js_call v what = Inl (TypeError (what @ '' is not a function''))"

text \<open>
  \<open>headers.append(name, value)\<close>: appends on a \<open>Headers\<close> object; on \<open>undefined\<close> and
  \<open>null\<close> the property read throws; on any other value \<open>append\<close> is not a function.
\<close>

fun headers_append :: "js \<Rightarrow> string \<Rightarrow> string \<Rightarrow> error + (string \<times> string) list" where
  "headers_append (JHeaders hs) name v = Inr (hs @ [(name, v)])"
| "headers_append JUndefined name v = Inl (TypeError ''Cannot read properties of undefined (reading append)'')"
| "headers_append JNull name v = Inl (TypeError ''Cannot read properties of null (reading append)'')"
| "headers_append h name v = Inl (TypeError ''headers.append is not a function'')"

text \<open>The comma operator \<open>(a, b)\<close> evaluates both operands and yields the second.\<close>

definition comma_op :: "js \<Rightarrow> js \<Rightarrow> js" where
  "comma_op a b = b"

text \<open>
  The module neither declares nor imports a binding \<open>nil\<close>, and module code is strict:
  evaluating the identifier throws a ReferenceError.
\<close>

definition nil_binding :: "error + js" where
  "nil_binding = Inl (ReferenceError ''nil is not defined'')"

text \<open>\<open>0 != v\<close>: loose inequality with the number zero.\<close>

fun loose_neq_zero :: "platform \<Rightarrow> js \<Rightarrow> bool" where
  "loose_neq_zero env JUndefined = True"
| "loose_neq_zero env JNull = True"
| "loose_neq_zero env v = (to_number env v \<noteq> Finite 0)"

subsection \<open>The Request constructor\<close>

text \<open>
  Header names are compared without regard to ASCII case, as \<open>Headers\<close> compares them.
  \<open>new Request(url, options)\<close> upper-cases the six methods the Fetch standard
  normalises, throws a TypeError for a body on GET or HEAD, and gives a string body the
  content type \<open>text/plain;charset=UTF-8\<close> when the headers name none. Other checks of
  the constructor (method tokens, header value syntax, credentials in the URL) are not
  modelled.
\<close>

definition upper_char :: "char \<Rightarrow> char" where
  "upper_char ch = (case map_of (zip ''abcdefghijklmnopqrstuvwxyz'' ''ABCDEFGHIJKLMNOPQRSTUVWXYZ'') ch of
                     None \<Rightarrow> ch | Some u \<Rightarrow> u)"

definition upper :: "string \<Rightarrow> string" where
  "upper s = map upper_char s"

definition header_lookup :: "(string \<times> string) list \<Rightarrow> string \<Rightarrow> string option" where
  "header_lookup hs name = map_of (map (\<lambda>(n, v). (upper n, v)) hs) (upper name)"

definition normalize_method :: "string \<Rightarrow> string" where
  "normalize_method m =
     (if upper m = ''DELETE'' \<or> upper m = ''GET'' \<or> upper m = ''HEAD'' \<or> upper m = ''OPTIONS''
         \<or> upper m = ''POST'' \<or> upper m = ''PUT''
      then upper m else m)"

definition new_Request ::
  "platform \<Rightarrow> string \<Rightarrow> js \<Rightarrow> (string \<times> string) list \<Rightarrow> string option \<Rightarrow> error + request" where
  "new_Request env url method hs body =
     (let m = normalize_method (to_string env method) in
      if body \<noteq> None \<and> (m = ''GET'' \<or> m = ''HEAD'')
      then Inl (TypeError ''Request with GET/HEAD method cannot have body'')
      else Inr \<lparr>req_url = url, req_method = m,
                req_headers =
                  (if body \<noteq> None \<and> header_lookup hs headerContentType = None
                   then hs @ [(''content-type'', ''text/plain;charset=UTF-8'')] else hs),
                req_body = body\<rparr>)"

section \<open>The client (lines 42 to 271)\<close>

text \<open>
  \<open>NewClient\<close> is the constructor of lines 55 to 64. \<open>NewClientFromAccess\<close> (lines 29
  to 40) decodes a hexadecimal key with library functions and then calls \<open>NewClient\<close>;
  \<open>getVersion\<close> returns the version string of the package file. No property below
  depends on either.
\<close>

definition NewClient :: "string \<Rightarrow> 8 word list \<Rightarrow> TaiyiClient" where
  "NewClient accessID' privateKey' =
     \<lparr>accessID = accessID', privateKey = privateKey', apiBase = '''', domain = '''', nonce = '''',
      sessionID = JStr '''', timeout = JNum (Finite 0), localIP = JStr ''''\<rparr>"

definition mapToAPI :: "TaiyiClient \<Rightarrow> string \<Rightarrow> string" where
  "mapToAPI c path = apiBase c @ path"

definition mapToDomain :: "TaiyiClient \<Rightarrow> string \<Rightarrow> string" where
  "mapToDomain c path = apiBase c @ ''/domains/'' @ domain c @ path"

definition newNonce :: "platform \<Rightarrow> string" where
  "newNonce env = (let nonceLength = 16 in Strings_random env nonceLength)"

definition base64Signature :: "platform \<Rightarrow> TaiyiClient \<Rightarrow> js \<Rightarrow> error + string" where
  "base64Signature env c obj =
     (let content = JSON_stringify env obj in
      case ed25519_sign env content (privateKey c) of
        Inl e \<Rightarrow> Inl e
      | Inr signed_content \<Rightarrow> Inr (btoa env signed_content))"

text \<open>
  \<open>#signatureRequest\<close>, lines 225 to 263. \<open>signatureContent\<close> is the object that is
  signed: the literal of lines 229 to 238 with the \<open>body\<close> field as lines 242 to 256
  leave it. \<open>bodyContent\<close> is the variable of line 242 after the \<open>if (payload)\<close> block.
\<close>

definition bodyContent :: "platform \<Rightarrow> js \<Rightarrow> string" where
  "bodyContent env payload = (if truthy payload then JSON_stringify env payload else '''')"

definition signatureContent :: "platform \<Rightarrow> TaiyiClient \<Rightarrow> js \<Rightarrow> string \<Rightarrow> js \<Rightarrow> (string \<times> js) list" where
  "signatureContent env c method pathname payload =
     (let content =
        [(''id'', sessionID c),
         (''method'', method),
         (''url'', JStr pathname),
         (''body'', JStr ''''),
         (''access'', JStr (accessID c)),
         (''timestamp'', JStr (toISOString_now env)),
         (''nonce'', JStr (nonce c)),
         (''signature_algorithm'', JStr signatureMethodEd25519)]
      in if method = JStr ''post'' \<or> method = JStr ''put'' \<or> method = JStr ''delete''
            \<or> method = JStr ''patch''
         then obj_set content ''body''
                (JStr (Base64_stringify env (SHA256 env (bodyContent env payload))))
         else content)"

definition signatureRequest :: "platform \<Rightarrow> TaiyiClient \<Rightarrow> js \<Rightarrow> js \<Rightarrow> js \<Rightarrow> error + request" where
  "signatureRequest env c method url payload =
     (case URL_pathname env (to_string env url) of
        None \<Rightarrow> Inl (TypeError ''Invalid URL'')
      | Some pathname \<Rightarrow>
          (let timestamp = toISOString_now env;
               hs = (if truthy payload then [(''headerContentType'', contentTypeJSON)] else []);
               body = (if truthy payload then Some (bodyContent env payload) else None)
           in case new_Request env (to_string env url) method hs body of
                Inl e \<Rightarrow> Inl e
              | Inr req \<Rightarrow>
                  (case base64Signature env c (JObj (signatureContent env c method pathname payload)) of
                     Inl e \<Rightarrow> Inl e
                   | Inr signature \<Rightarrow>
                       Inr (req\<lparr>req_headers := req_headers req @
                              [(headerNameSession, to_string env (sessionID c)),
                               (headerNameTimestamp, timestamp),
                               (headerNameSignatureAlgorithm, signatureMethodEd25519),
                               (headerNameSignature, signature)]\<rparr>))))"

text \<open>
  The response path, lines 184 to 203. Each function returns its outcome together with
  the requests it handed to \<open>fetch\<close>, in order. \<open>#parseResponse\<close> calls \<open>resp.ok()\<close>:
  \<open>ok\<close> is read from the response and then called.
\<close>

definition parseResponse :: "platform \<Rightarrow> request \<Rightarrow> (error + js) \<times> request list" where
  "parseResponse env req =
     (case fetch env req of
        Inl e \<Rightarrow> Inl e
      | Inr resp \<Rightarrow>
          (case js_call (JBool (ok resp)) ''resp.ok'' of
             Inl e \<Rightarrow> Inl e
           | Inr is_ok \<Rightarrow>
               if \<not> truthy is_ok
               then Inl (Error (''fetch result failed with status '' @ show_int (status resp)
                                  @ '': '' @ statusText resp))
               else
                 (case JSON_parse env (body_text resp) of
                    Inl e \<Rightarrow> Inl e
                  | Inr payload \<Rightarrow>
                      (case get_prop payload payloadPathErrorCode of
                         Inl e \<Rightarrow> Inl e
                       | Inr code \<Rightarrow>
                           if loose_neq_zero env code
                           then (case get_prop payload payloadPathErrorMessage of
                                   Inl e \<Rightarrow> Inl e
                                 | Inr msg \<Rightarrow> Inl (Error (''fetch faile: '' @ to_string env msg)))
                           else Inr payload))),
      [req])"

text \<open>
  \<open>#validateResult\<close> starts \<open>#parseResponse\<close> and neither awaits nor returns its
  promise: the request is fetched, the outcome is dropped, and the caller gets
  \<open>undefined\<close>.
\<close>

definition validateResult :: "platform \<Rightarrow> request \<Rightarrow> (error + js) \<times> request list" where
  "validateResult env req = (Inr JUndefined, snd (parseResponse env req))"

definition getResult :: "platform \<Rightarrow> request \<Rightarrow> (error + js) \<times> request list" where
  "getResult env req =
     (case parseResponse env req of
        (Inl e, sent) \<Rightarrow> (Inl e, sent)
      | (Inr payload, sent) \<Rightarrow>
          (case get_prop payload payloadPathData of
             Inl e \<Rightarrow> (Inl e, sent)
           | Inr d \<Rightarrow> (JSON_parse env (to_string env d), sent)))"

definition peekRequest :: "platform \<Rightarrow> TaiyiClient \<Rightarrow> js \<Rightarrow> js \<Rightarrow> (error + js) \<times> request list" where
  "peekRequest env c method url =
     (case signatureRequest env c method url JNull of
        Inl e \<Rightarrow> (Inl e, [])
      | Inr req \<Rightarrow>
          (case fetch env req of
             Inl e \<Rightarrow> (Inl e, [req])
           | Inr resp \<Rightarrow> (Inr (JBool (ok resp)), [req])))"

text \<open>
  \<open>#rawRequest(method, path, headers, payload)\<close>, lines 164 to 176. The parameters
  take whatever the caller passes, so \<open>headers\<close> and \<open>payload\<close> are JavaScript values.
\<close>

definition rawRequest ::
  "platform \<Rightarrow> TaiyiClient \<Rightarrow> js \<Rightarrow> string \<Rightarrow> js \<Rightarrow> js \<Rightarrow> (error + js) \<times> request list" where
  "rawRequest env c method path headers payload =
     (let url = mapToAPI c path in
      case headers_append headers headerContentType contentTypeJSON of
        Inl e \<Rightarrow> (Inl e, [])
      | Inr hs \<Rightarrow>
          (case nil_binding of
             Inl e \<Rightarrow> (Inl e, [])
           | Inr nil \<Rightarrow>
               (let body = (if nil \<noteq> payload then Some (JSON_stringify env payload) else None)
                in case new_Request env url method hs body of
                     Inl e \<Rightarrow> (Inl e, [])
                   | Inr req \<Rightarrow> getResult env req)))"

text \<open>The four dispatch helpers, lines 205 to 223.\<close>

definition doRequest :: "platform \<Rightarrow> TaiyiClient \<Rightarrow> js \<Rightarrow> js \<Rightarrow> (error + js) \<times> request list" where
  "doRequest env c method url =
     (case signatureRequest env c method url JNull of
        Inl e \<Rightarrow> (Inl e, [])
      | Inr req \<Rightarrow> validateResult env req)"

definition doRequestWithPayload ::
  "platform \<Rightarrow> TaiyiClient \<Rightarrow> js \<Rightarrow> js \<Rightarrow> js \<Rightarrow> (error + js) \<times> request list" where
  "doRequestWithPayload env c method url payload =
     (case signatureRequest env c method url payload of
        Inl e \<Rightarrow> (Inl e, [])
      | Inr req \<Rightarrow> validateResult env req)"

definition fetchResponse :: "platform \<Rightarrow> TaiyiClient \<Rightarrow> js \<Rightarrow> js \<Rightarrow> (error + js) \<times> request list" where
  "fetchResponse env c method url =
     (case signatureRequest env c method url JNull of
        Inl e \<Rightarrow> (Inl e, [])
      | Inr req \<Rightarrow> getResult env req)"

definition fetchResponseWithPayload ::
  "platform \<Rightarrow> TaiyiClient \<Rightarrow> js \<Rightarrow> js \<Rightarrow> js \<Rightarrow> (error + js) \<times> request list" where
  "fetchResponseWithPayload env c method url payload =
     (case signatureRequest env c method url payload of
        Inl e \<Rightarrow> (Inl e, [])
      | Inr req \<Rightarrow> getResult env req)"

text \<open>
  \<open>connectToDomain\<close>, lines 74 to 110: the outcome, the client after the call and the
  requests fetched. \<open>host\<close> and \<open>domainName\<close> are strings; \<open>port\<close> is any value, so
  that the guard of line 81 is the JavaScript comparison it is in the code (a \<open>NaN\<close>
  port, \<open>undefined\<close> included, makes both comparisons false).
  \<open>handshakeContent\<close> is the object literal of lines 90 to 95. The \<open>Headers\<close> object
  of lines 101 to 104 is built and not passed on: the call of line 105 has three
  arguments, so \<open>#rawRequest\<close> receives \<open>requestData\<close> as \<open>headers\<close> and \<open>undefined\<close>
  as \<open>payload\<close>.
\<close>

definition handshakeContent :: "TaiyiClient \<Rightarrow> string \<Rightarrow> (string \<times> js) list" where
  "handshakeContent c timestamp =
     [(''access'', JStr (accessID c)),
      (''timestamp'', JStr timestamp),
      (''nonce'', JStr (nonce c)),
      (''signature_algorithm'', JStr signatureMethodEd25519)]"

definition connectToDomain ::
  "platform \<Rightarrow> TaiyiClient \<Rightarrow> string \<Rightarrow> js \<Rightarrow> string \<Rightarrow> (error + js) \<times> TaiyiClient \<times> request list" where
  "connectToDomain env c host port domainName =
     (let host' = (if host = '''' then defaultDomainHost else host) in
      if domainName = '''' then (Inl (Error ''domain name omit''), c, [])
      else if js_le env port (Finite 0) \<or> js_gt env port (Finite 65535)
      then (Inl (Error (''invalid port '' @ to_string env port)), c, [])
      else
        (let c1 = c\<lparr>apiBase := ''http://'' @ host' @ '':'' @ to_string env port @ ''/api/v'' @ APIVersion,
                    domain := domainName,
                    nonce := newNonce env\<rparr>;
             timestamp = toISOString_now env;
             signagureAlgorithm = signatureMethodEd25519
         in case base64Signature env c1 (JObj (handshakeContent c1 timestamp)) of
              Inl e \<Rightarrow> (Inl e, c1, [])
            | Inr signature \<Rightarrow>
                (let requestData = JObj [(''id'', JStr (accessID c1)), (''nonce'', JStr (nonce c1))];
                     headers = JHeaders [(headerNameTimestamp, timestamp),
                                         (headerNameSignatureAlgorithm, signagureAlgorithm),
                                         (headerNameSignature, signature)]
                 in case rawRequest env c1 (JStr ''post'') ''/sessions/'' requestData JUndefined of
                      (Inl e, sent) \<Rightarrow> (Inl e, c1, sent)
                    | (Inr res, sent) \<Rightarrow>
                        (case get_prop res ''session'' of
                           Inl e \<Rightarrow> (Inl e, c1, sent)
                         | Inr session \<Rightarrow>
                             (case get_prop res ''timeout'' of
                                Inl e \<Rightarrow> (Inl e, c1, sent)
                              | Inr timeout' \<Rightarrow>
                                  (case get_prop res ''address'' of
                                     Inl e \<Rightarrow> (Inl e, c1, sent)
                                   | Inr address \<Rightarrow>
                                       (Inr JUndefined,
                                        c1\<lparr>sessionID := session, timeout := timeout', localIP := address\<rparr>,
                                        sent)))))))"

definition connect ::
  "platform \<Rightarrow> TaiyiClient \<Rightarrow> string \<Rightarrow> js \<Rightarrow> (error + js) \<times> TaiyiClient \<times> request list" where
  "connect env c host port = connectToDomain env c host port defaultDomainName"

text \<open>
  \<open>activate\<close>, lines 112 to 115: the single argument of \<open>#doRequest\<close> is the comma
  expression \<open>('put', url)\<close>, so the second parameter is \<open>undefined\<close>.
  \<open>getStatus\<close> (lines 127 to 130) lies inside the comment that opens on line 117 and
  closes on line 143: the class has no such method.
\<close>

definition activate :: "platform \<Rightarrow> TaiyiClient \<Rightarrow> (error + js) \<times> request list" where
  "activate env c =
     (let url = mapToAPI c ''/sessions/'' in
      doRequest env c (comma_op (JStr ''put'') (JStr url)) JUndefined)"

definition querySchemas :: "platform \<Rightarrow> TaiyiClient \<Rightarrow> js \<Rightarrow> js \<Rightarrow> (error + js) \<times> request list" where
  "querySchemas env c queryStart maxRecord =
     (let url = mapToDomain c ''schemas/'';
          condition = JObj [(''offset'', queryStart), (''limit'', maxRecord)]
      in fetchResponseWithPayload env c (JStr ''post'') (JStr url) condition)"

section \<open>A concrete platform for evaluation\<close>

text \<open>
  Closed evaluations need concrete primitives. \<open>demo_platform\<close> uses symbolic ones: a
  signature, a digest and an encoding are the input wrapped in a tag, so distinct inputs
  give distinct outputs and no output is empty (the real digest and encodings are never
  empty either). \<open>demo_stringify\<close> writes objects of strings and integers as JSON
  text; \<open>demo_pathname\<close> accepts strings that start with \<open>http://\<close> and returns
  what follows the authority up to a \<open>?\<close> or \<open>#\<close>; \<open>demo_parse\<close> decodes the two
  JSON texts of the success envelope; the transport answers every request with status
  200 and that envelope. Strings other than \<open>0\<close> and the empty one convert to \<open>NaN\<close>,
  and the only numbers printed outside the decimal range are one half and \<open>1e21\<close>.
\<close>

definition bytes_of :: "string \<Rightarrow> 8 word list" where
  "bytes_of s = map of_char s"

definition string_of :: "8 word list \<Rightarrow> string" where
  "string_of bs = map (\<lambda>b. char_of (unat b)) bs"

fun demo_value :: "js \<Rightarrow> string" where
  "demo_value (JStr s) = [CHR 0x22] @ s @ [CHR 0x22]"
| "demo_value (JNum (Finite q)) = (if q = of_int \<lfloor>q\<rfloor> then show_int \<lfloor>q\<rfloor> else ''null'')"
| "demo_value (JBool b) = (if b then ''true'' else ''false'')"
| "demo_value v = ''null''"

fun demo_fields :: "(string \<times> js) list \<Rightarrow> string" where
  "demo_fields [] = ''''"
| "demo_fields [(k, v)] = [CHR 0x22] @ k @ [CHR 0x22] @ '':'' @ demo_value v"
| "demo_fields ((k, v) # kvs) = [CHR 0x22] @ k @ [CHR 0x22] @ '':'' @ demo_value v @ '','' @ demo_fields kvs"

fun demo_stringify :: "js \<Rightarrow> string" where
  "demo_stringify (JObj kvs) = ''{'' @ demo_fields kvs @ ''}''"
| "demo_stringify v = demo_value v"

definition demo_pathname :: "string \<Rightarrow> string option" where
  "demo_pathname s =
     (if take 7 s = ''http://''
      then Some (takeWhile (\<lambda>ch. ch \<noteq> CHR ''?'' \<and> ch \<noteq> CHR ''#'')
                   (dropWhile (\<lambda>ch. ch \<noteq> CHR ''/'') (drop 7 s)))
      else None)"

text \<open>
  The handshake answer of the specification's example: the envelope's \<open>data\<close> field is
  the JSON text of the session, with its quotes escaped inside the envelope text.
\<close>

definition demo_session_text :: string where
  \<open>demo_session_text = ''{"session":"abc","timeout":30,"address":"10.0.0.2"}''\<close>

definition demo_escape :: "string \<Rightarrow> string" where
  "demo_escape s = concat (map (\<lambda>ch. if ch = CHR 0x22 then [CHR 0x5C, CHR 0x22] else [ch]) s)"

definition demo_envelope :: string where
  \<open>demo_envelope = ''{"error_code":0,"message":"","data":"'' @ demo_escape demo_session_text @ ''"}''\<close>

definition demo_parse :: "string \<Rightarrow> error + js" where
  "demo_parse s =
     (if s = demo_envelope
      then Inr (JObj [(''error_code'', JNum (Finite 0)), (''message'', JStr ''''), (''data'', JStr demo_session_text)])
      else if s = demo_session_text
      then Inr (JObj [(''session'', JStr ''abc''), (''timeout'', JNum (Finite 30)), (''address'', JStr ''10.0.0.2'')])
      else Inl (SyntaxError ''Unexpected token''))"

definition demo_platform :: platform where
  "demo_platform =
     \<lparr>toISOString_now = ''2024-01-01T00:00:00.000Z'',
      Strings_random = (\<lambda>n. take n ''Zq3kT9xLm2VbN8aR''),
      ed25519_sign = (\<lambda>content key. Inr (''sig('' @ content @ '')'')),
      btoa = (\<lambda>s. ''b64('' @ s @ '')''),
      SHA256 = (\<lambda>s. bytes_of (''sha256('' @ s @ '')'')),
      Base64_stringify = (\<lambda>bs. ''b64('' @ string_of bs @ '')''),
      JSON_stringify = demo_stringify,
      JSON_parse = demo_parse,
      URL_pathname = demo_pathname,
      Number_of_string = (\<lambda>s. if s = ''0'' \<or> s = '''' then Finite 0 else NaN),
      Number_toString = (\<lambda>q. if q = 1 / 2 then ''0.5'' else ''1e+21''),
      fetch = (\<lambda>req. Inr \<lparr>ok = True, status = 200, statusText = ''OK'', body_text = demo_envelope\<rparr>)\<rparr>"

definition demo_client :: TaiyiClient where
  "demo_client = NewClient ''access-1'' [1, 2, 3]"

text \<open>
  \<open>demo_attempted\<close> is the client after one \<open>connectToDomain\<close> call with well-formed
  arguments on the fresh \<open>demo_client\<close>.
\<close>

definition demo_attempted :: TaiyiClient where
  "demo_attempted = fst (snd (connectToDomain demo_platform demo_client ''localhost'' (JNum (Finite 8080)) ''system''))"

text \<open>\<open>demo_platform_bad_key\<close> is \<open>demo_platform\<close> with a signing primitive that throws.\<close>

definition demo_platform_bad_key :: platform where
  "demo_platform_bad_key = demo_platform\<lparr>ed25519_sign := (\<lambda>content key. Inl (Error ''bad key''))\<rparr>"

section \<open>Properties\<close>

subsection \<open>Auxiliary facts\<close>

lemmas const_defs = APIVersion_def projectName_def headerNameSession_def headerNameTimestamp_def
  headerNameSignature_def headerNameSignatureAlgorithm_def defaultDomainName_def defaultDomainHost_def
  signatureMethodEd25519_def headerContentType_def contentTypeJSON_def payloadPathErrorCode_def
  payloadPathErrorMessage_def payloadPathData_def

lemma show_int_8080: "show_int 8080 = ''8080''"
  by (simp add: show_int_def digits.simps)


lemma to_string_8080: "to_string env (JNum (Finite 8080)) = ''8080''"
  by (simp add: show_int_8080)



text \<open>The guard of line 81 on a finite number, on \<open>NaN\<close> and on \<open>undefined\<close>.\<close>

lemma port_guard_finite:
  "(js_le env (JNum (Finite q)) (Finite 0) \<or> js_gt env (JNum (Finite q)) (Finite 65535))
     = (q \<le> 0 \<or> 65535 < q)"
  by (auto simp add: js_le_def js_gt_def)


text \<open>A plain object in the \<open>headers\<close> position stops \<open>#rawRequest\<close> at line 166.\<close>

lemma rawRequest_plain_object:
  "rawRequest env c method path (JObj kvs) payload =
     (Inl (TypeError ''headers.append is not a function''), [])"
  by (simp add: rawRequest_def)

text \<open>What \<open>connectToDomain\<close> does once its arguments have passed lines 75 to 83.\<close>

lemma connectToDomain_past_validation:
  assumes "domainName \<noteq> ''''" "\<not> js_le env port (Finite 0)" "\<not> js_gt env port (Finite 65535)"
  shows "connectToDomain env c host port domainName =
     (let c1 = c\<lparr>apiBase := ''http://'' @ (if host = '''' then ''localhost'' else host) @ '':''
                              @ to_string env port @ ''/api/v1'',
                  domain := domainName, nonce := Strings_random env 16\<rparr>
      in case ed25519_sign env (JSON_stringify env (JObj (handshakeContent c1 (toISOString_now env))))
                (privateKey c) of
           Inl e \<Rightarrow> (Inl e, c1, [])
         | Inr s \<Rightarrow> (Inl (TypeError ''headers.append is not a function''), c1, []))"
  using assms
  by (simp add: connectToDomain_def rawRequest_plain_object base64Signature_def newNonce_def
      const_defs Let_def split: sum.splits)

text \<open>A call that validation rejects returns before line 84.\<close>

lemma connectToDomain_rejected:
  assumes "domainName = '''' \<or> js_le env port (Finite 0) \<or> js_gt env port (Finite 65535)"
  shows "connectToDomain env c host port domainName =
     (Inl (if domainName = '''' then Error ''domain name omit''
           else Error (''invalid port '' @ to_string env port)), c, [])"
  using assms
  by (auto simp add: connectToDomain_def)

lemma demo_connect_eval:
  "connectToDomain demo_platform demo_client ''localhost'' (JNum (Finite 8080)) ''system'' =
     (Inl (TypeError ''headers.append is not a function''),
      demo_client\<lparr>apiBase := ''http://localhost:8080/api/v1'', domain := ''system'',
                  nonce := ''Zq3kT9xLm2VbN8aR''\<rparr>,
      [])"
proof -
  have g: "\<not> js_le demo_platform (JNum (Finite 8080)) (Finite 0)" "\<not> js_gt demo_platform (JNum (Finite 8080)) (Finite 65535)"
    using port_guard_finite [of demo_platform 8080] by simp_all
  have s: "ed25519_sign demo_platform = (\<lambda>content key. Inr (''sig('' @ content @ '')''))"
    "Strings_random demo_platform 16 = ''Zq3kT9xLm2VbN8aR''"
    by (simp_all add: demo_platform_def)
  have t: "to_string demo_platform (JNum (Finite 8080)) = ''8080''"
    using to_string_8080 [of demo_platform] by simp
  show ?thesis
    using connectToDomain_past_validation [where domainName = "''system''" and env = demo_platform
        and port = "JNum (Finite 8080)" and c = demo_client and host = "''localhost''"] g t
    by (simp add: s)
qed

lemma demo_attempted_eval:
  "demo_attempted = demo_client\<lparr>apiBase := ''http://localhost:8080/api/v1'', domain := ''system'',
                                nonce := ''Zq3kT9xLm2VbN8aR''\<rparr>"
  by (simp add: demo_attempted_def demo_connect_eval)


lemma signatureContent_keys:
  "map fst (signatureContent env c method pathname payload) =
     [''id'', ''method'', ''url'', ''body'', ''access'', ''timestamp'', ''nonce'', ''signature_algorithm'']"
  by (simp add: signatureContent_def Let_def)

text \<open>Upper-casing the header names and methods the code uses.\<close>

lemma upper_names:
  "upper ''Content-Type'' = ''CONTENT-TYPE''"
  "upper ''content-type'' = ''CONTENT-TYPE''"
  "upper ''headerContentType'' = ''HEADERCONTENTTYPE''"
  "upper ''Taiyi-Session'' = ''TAIYI-SESSION''"
  "upper ''Taiyi-Timestamp'' = ''TAIYI-TIMESTAMP''"
  "upper ''Taiyi-SignatureAlgorithm'' = ''TAIYI-SIGNATUREALGORITHM''"
  "upper ''Taiyi-Signature'' = ''TAIYI-SIGNATURE''"
  "upper ''post'' = ''POST''"
  by (simp_all add: upper_def upper_char_def)

lemma normalize_method_post: "normalize_method ''post'' = ''POST''"
  by (simp add: normalize_method_def upper_names)

lemma header_lookup_Nil: "header_lookup [] name = None"
  by (simp add: header_lookup_def)

lemma header_lookup_Cons:
  "header_lookup ((n, v) # hs) name = (if upper n = upper name then Some v else header_lookup hs name)"
  by (simp add: header_lookup_def)

text \<open>The request \<open>new Request\<close> builds, when it builds one.\<close>

lemma new_Request_Inr:
  assumes "new_Request env url method hs body = Inr base"
  shows "base = \<lparr>req_url = url, req_method = normalize_method (to_string env method),
                 req_headers = (if body \<noteq> None \<and> header_lookup hs headerContentType = None
                                then hs @ [(''content-type'', ''text/plain;charset=UTF-8'')] else hs),
                 req_body = body\<rparr>"
  using assms by (auto simp add: new_Request_def Let_def split: if_splits)

text \<open>
  A request returned by \<open>#signatureRequest\<close>: the URL parsed, the constructor accepted
  the method and body, the signing primitive signed the serialized \<open>signatureContent\<close>,
  and the four protocol headers were appended.
\<close>

lemma signatureRequest_Inr:
  assumes "signatureRequest env c method url payload = Inr req"
  shows "\<exists>pathname base signed_content.
           URL_pathname env (to_string env url) = Some pathname
         \<and> new_Request env (to_string env url) method
               (if truthy payload then [(''headerContentType'', contentTypeJSON)] else [])
               (if truthy payload then Some (bodyContent env payload) else None) = Inr base
         \<and> ed25519_sign env (JSON_stringify env (JObj (signatureContent env c method pathname payload)))
               (privateKey c) = Inr signed_content
         \<and> req = base\<lparr>req_headers := req_headers base @
                    [(headerNameSession, to_string env (sessionID c)),
                     (headerNameTimestamp, toISOString_now env),
                     (headerNameSignatureAlgorithm, signatureMethodEd25519),
                     (headerNameSignature, btoa env signed_content)]\<rparr>"
proof -
  obtain pathname where p: "URL_pathname env (to_string env url) = Some pathname"
    using assms by (cases "URL_pathname env (to_string env url)") (simp_all add: signatureRequest_def)
  obtain base where b: "new_Request env (to_string env url) method
               (if truthy payload then [(''headerContentType'', contentTypeJSON)] else [])
               (if truthy payload then Some (bodyContent env payload) else None) = Inr base"
    using assms p
    by (cases "new_Request env (to_string env url) method
               (if truthy payload then [(''headerContentType'', contentTypeJSON)] else [])
               (if truthy payload then Some (bodyContent env payload) else None)")
       (simp_all add: signatureRequest_def Let_def)
  obtain signed_content where s:
    "ed25519_sign env (JSON_stringify env (JObj (signatureContent env c method pathname payload)))
               (privateKey c) = Inr signed_content"
    using assms p b
    by (cases "ed25519_sign env (JSON_stringify env (JObj (signatureContent env c method pathname payload)))
               (privateKey c)")
       (simp_all add: signatureRequest_def base64Signature_def Let_def)
  have "req = base\<lparr>req_headers := req_headers base @
                    [(headerNameSession, to_string env (sessionID c)),
                     (headerNameTimestamp, toISOString_now env),
                     (headerNameSignatureAlgorithm, signatureMethodEd25519),
                     (headerNameSignature, btoa env signed_content)]\<rparr>"
    using assms p b s
    by (simp add: signatureRequest_def base64Signature_def Let_def)
  with p b s show ?thesis by blast
qed

text \<open>What the response path hands to \<open>fetch\<close>.\<close>

lemma getResult_sent: "snd (getResult env req) = [req]"
  by (simp add: getResult_def parseResponse_def split: sum.splits)

lemma fetchResponseWithPayload_sent:
  "snd (fetchResponseWithPayload env c method url payload) =
     (case signatureRequest env c method url payload of Inl e \<Rightarrow> [] | Inr req \<Rightarrow> [req])"
  by (simp add: fetchResponseWithPayload_def getResult_sent split: sum.splits)

text \<open>The request \<open>querySchemas\<close> signs on the client \<open>demo_attempted\<close>.\<close>

lemma demo_query_request:
  "signatureRequest demo_platform demo_attempted (JStr ''post'')
     (JStr ''http://localhost:8080/api/v1/domains/systemschemas/'')
     (JObj [(''offset'', JNum (Finite 0)), (''limit'', JNum (Finite 20))])
   = Inr \<lparr>req_url = ''http://localhost:8080/api/v1/domains/systemschemas/'',
          req_method = ''POST'',
          req_headers =
            [(''headerContentType'', ''application/json''),
             (''content-type'', ''text/plain;charset=UTF-8''),
             (''Taiyi-Session'', ''''),
             (''Taiyi-Timestamp'', ''2024-01-01T00:00:00.000Z''),
             (''Taiyi-SignatureAlgorithm'', ''ed25519''),
             (''Taiyi-Signature'',
              btoa demo_platform (''sig('' @ demo_stringify (JObj (signatureContent demo_platform
                 demo_attempted (JStr ''post'') ''/api/v1/domains/systemschemas/''
                 (JObj [(''offset'', JNum (Finite 0)), (''limit'', JNum (Finite 20))]))) @ '')''))],
          req_body = Some (demo_stringify (JObj [(''offset'', JNum (Finite 0)), (''limit'', JNum (Finite 20))]))\<rparr>"
proof -
  have p: "URL_pathname demo_platform ''http://localhost:8080/api/v1/domains/systemschemas/''
             = Some ''/api/v1/domains/systemschemas/''"
    by (simp add: demo_platform_def demo_pathname_def)
  have s: "JSON_stringify demo_platform = demo_stringify"
    "ed25519_sign demo_platform = (\<lambda>content key. Inr (''sig('' @ content @ '')''))"
    "toISOString_now demo_platform = ''2024-01-01T00:00:00.000Z''"
    by (simp_all add: demo_platform_def)
  have c: "sessionID demo_attempted = JStr ''''"
    by (simp add: demo_attempted_eval demo_client_def NewClient_def)
  show ?thesis
    unfolding signatureRequest_def
    by (simp add: p s c new_Request_def normalize_method_post header_lookup_Cons header_lookup_Nil
        upper_names bodyContent_def base64Signature_def const_defs Let_def
        del: demo_stringify.simps)
qed

subsection \<open>C1: the signed body field\<close>

text \<open>
  Claim C1 says that the signed \<open>body\<close> field is the digest of the serialized payload
  for post, put, delete and patch with a non-null payload, and the empty-string sentinel
  for get or for a null payload. The second half fails: line 253 tests the method only,
  so a put with a null payload signs the digest of the empty string.
\<close>

theorem signed_body_null_payload_counterexample:
  "map_of (signatureContent demo_platform demo_client (JStr ''put'') ''/api/v1/sessions/'' JNull) ''body''
     = Some (JStr (Base64_stringify demo_platform (SHA256 demo_platform '''')))
   \<and> map_of (signatureContent demo_platform demo_client (JStr ''put'') ''/api/v1/sessions/'' JNull) ''body''
     \<noteq> Some (JStr '''')"
  by (simp add: signatureContent_def bodyContent_def demo_platform_def)

text \<open>
  C1 as amended: the signed \<open>body\<close> field is decided by the method alone. For post, put,
  delete and patch it is the base64 encoding of the SHA-256 digest of \<open>bodyContent\<close>,
  which is the serialized payload when the payload is truthy and the empty string
  otherwise; for every other method it is the empty string.
\<close>

theorem signatureContent_body:
  "map_of (signatureContent env c method pathname payload) ''body'' =
     Some (if method = JStr ''post'' \<or> method = JStr ''put'' \<or> method = JStr ''delete''
              \<or> method = JStr ''patch''
           then JStr (Base64_stringify env (SHA256 env
                        (if truthy payload then JSON_stringify env payload else '''')))
           else JStr '''')"
  by (simp add: signatureContent_def bodyContent_def Let_def)

subsection \<open>C2: the handshake request\<close>

text \<open>
  Claim C2 says that after a successful validation \<open>connectToDomain\<close> issues a POST to
  \<open>/sessions/\<close> with the body \<open>{id, nonce}\<close> and the timestamp, algorithm and signature
  headers. The code does not: for every platform, client and argument list the call ends
  in an error and hands no request to \<open>fetch\<close>. With valid arguments the error is the
  TypeError of \<open>headers.append\<close> on the plain object \<open>requestData\<close> (or whatever the
  signing primitive threw before).
\<close>

theorem connectToDomain_never_sends:
  "snd (snd (connectToDomain env c host port domainName)) = []
   \<and> isl (fst (connectToDomain env c host port domainName))"
  by (simp add: connectToDomain_def rawRequest_plain_object Let_def split: sum.splits)

subsection \<open>C3: validation in connectToDomain\<close>




subsection \<open>C4: a failing connectToDomain\<close>

text \<open>
  Claim C4 says that a run of \<open>connectToDomain\<close> that fails after validation leaves
  \<open>apiBase\<close>, \<open>domain\<close>, \<open>nonce\<close>, \<open>sessionID\<close>, \<open>timeout\<close> and \<open>localIP\<close> at their
  values before the call. Lines 84 to 86 assign the first three before anything can fail:
  both when the signing primitive throws and when the request path throws, the failing
  run has changed them.
\<close>

theorem connect_failure_partial_state_counterexample:
  "connectToDomain demo_platform_bad_key demo_client ''localhost'' (JNum (Finite 8080)) ''system''
     = (Inl (Error ''bad key''),
        demo_client\<lparr>apiBase := ''http://localhost:8080/api/v1'', domain := ''system'',
                    nonce := ''Zq3kT9xLm2VbN8aR''\<rparr>, [])
   \<and> isl (fst (connectToDomain demo_platform demo_client ''localhost'' (JNum (Finite 8080)) ''system''))
   \<and> apiBase (fst (snd (connectToDomain demo_platform demo_client ''localhost'' (JNum (Finite 8080)) ''system'')))
       = ''http://localhost:8080/api/v1''
   \<and> apiBase demo_client = ''''"
proof -
  have g: "\<not> js_le demo_platform_bad_key (JNum (Finite 8080)) (Finite 0)"
    "\<not> js_gt demo_platform_bad_key (JNum (Finite 8080)) (Finite 65535)"
    using port_guard_finite [of demo_platform_bad_key 8080] by simp_all
  have t: "to_string demo_platform_bad_key (JNum (Finite 8080)) = ''8080''"
    using to_string_8080 [of demo_platform_bad_key] by simp
  have a: "connectToDomain demo_platform_bad_key demo_client ''localhost'' (JNum (Finite 8080)) ''system''
     = (Inl (Error ''bad key''),
        demo_client\<lparr>apiBase := ''http://localhost:8080/api/v1'', domain := ''system'',
                    nonce := ''Zq3kT9xLm2VbN8aR''\<rparr>, [])"
    using g t
    by (simp add: connectToDomain_past_validation demo_platform_bad_key_def demo_platform_def)
  have b: "apiBase demo_client = ''''"
    by (simp add: demo_client_def NewClient_def)
  from a b show ?thesis
    by (simp add: demo_connect_eval)
qed

text \<open>
  C4 as amended: when \<open>connectToDomain\<close> fails after validation has passed, the error
  reaches the caller, \<open>sessionID\<close>, \<open>timeout\<close> and \<open>localIP\<close> (and the credential) keep
  their values from before the call, and \<open>apiBase\<close>, \<open>domain\<close> and \<open>nonce\<close> hold the new
  base URL, the domain name and the freshly generated nonce.
\<close>

theorem connectToDomain_failure_state:
  assumes "domainName \<noteq> ''''"
    and "\<not> js_le env port (Finite 0)" and "\<not> js_gt env port (Finite 65535)"
    and "connectToDomain env c host port domainName = (Inl e, c', sent)"
  shows "c' = c\<lparr>apiBase := ''http://'' @ (if host = '''' then ''localhost'' else host) @ '':''
                          @ to_string env port @ ''/api/v1'',
               domain := domainName, nonce := Strings_random env 16\<rparr>
         \<and> sessionID c' = sessionID c \<and> timeout c' = timeout c \<and> localIP c' = localIP c
         \<and> accessID c' = accessID c \<and> privateKey c' = privateKey c"
  using assms
  by (auto simp add: connectToDomain_past_validation Let_def split: sum.splits)

theorem connectToDomain_failure_state_witness:
  "demo_attempted = demo_client\<lparr>apiBase := ''http://localhost:8080/api/v1'', domain := ''system'',
                                nonce := ''Zq3kT9xLm2VbN8aR''\<rparr>
   \<and> sessionID demo_attempted = JStr '''' \<and> timeout demo_attempted = JNum (Finite 0)
   \<and> localIP demo_attempted = JStr ''''"
proof -
  have g: "\<not> js_le demo_platform (JNum (Finite 8080)) (Finite 0)"
    "\<not> js_gt demo_platform (JNum (Finite 8080)) (Finite 65535)"
    using port_guard_finite [of demo_platform 8080] by simp_all
  have t: "to_string demo_platform (JNum (Finite 8080)) = ''8080''"
    using to_string_8080 [of demo_platform] by simp
  have r: "Strings_random demo_platform 16 = ''Zq3kT9xLm2VbN8aR''"
    by (simp add: demo_platform_def)
  have call: "connectToDomain demo_platform demo_client ''localhost'' (JNum (Finite 8080)) ''system''
        = (Inl (TypeError ''headers.append is not a function''), demo_attempted, [])"
    by (simp add: demo_connect_eval demo_attempted_eval)
  from connectToDomain_failure_state [where domainName = "''system''" and port = "JNum (Finite 8080)"
      and env = demo_platform and c = demo_client and host = "''localhost''"
      and e = "TypeError ''headers.append is not a function''" and c' = demo_attempted
      and sent = "[]", OF _ g call]
  show ?thesis
    by (simp add: show_int_8080 r demo_client_def NewClient_def)
qed

subsection \<open>C5: activate\<close>

text \<open>
  Claim C5 says that \<open>activate\<close> issues an authenticated PUT to \<open>/sessions/\<close> and
  succeeds iff the response envelope signals success. Line 114 passes the one argument
  \<open>('put', url)\<close>, so \<open>#doRequest\<close> gets the URL as its method and \<open>undefined\<close> as its
  URL: on every platform whose URL parser rejects the string \<open>undefined\<close>, and for every
  client, \<open>activate\<close> ends in the TypeError of \<open>new URL\<close> and sends nothing.
\<close>

theorem activate_throws_before_sending:
  assumes "URL_pathname env ''undefined'' = None"
  shows "activate env c = (Inl (TypeError ''Invalid URL''), [])"
  using assms
  by (simp add: activate_def doRequest_def comma_op_def signatureRequest_def)

theorem activate_throws_before_sending_witness:
  "URL_pathname demo_platform ''undefined'' = None
   \<and> activate demo_platform demo_attempted = (Inl (TypeError ''Invalid URL''), [])
   \<and> activate demo_platform demo_client = (Inl (TypeError ''Invalid URL''), [])"
  using activate_throws_before_sending [of demo_platform demo_attempted]
    activate_throws_before_sending [of demo_platform demo_client]
  by (simp add: demo_platform_def demo_pathname_def)

subsection \<open>C6: the URL of querySchemas\<close>

text \<open>
  Claim C6 says that \<open>querySchemas\<close> posts to \<open>apiBase + "/domains/" + d + "/schemas/"\<close>
  with the body \<open>{offset, limit}\<close>. Line 145 passes \<open>'schemas/'\<close> without the leading
  slash: every request \<open>querySchemas\<close> sends is a POST with that body, but to the URL
  \<open>apiBase + "/domains/" + d + "schemas/"\<close>.
\<close>

theorem querySchemas_request:
  "\<forall>req \<in> set (snd (querySchemas env c queryStart maxRecord)).
     req_url req = apiBase c @ ''/domains/'' @ domain c @ ''schemas/''
     \<and> req_method req = ''POST''
     \<and> req_body req = Some (JSON_stringify env (JObj [(''offset'', queryStart), (''limit'', maxRecord)]))"
proof
  fix req
  assume "req \<in> set (snd (querySchemas env c queryStart maxRecord))"
  then have sr: "signatureRequest env c (JStr ''post'')
                   (JStr (apiBase c @ ''/domains/'' @ domain c @ ''schemas/''))
                   (JObj [(''offset'', queryStart), (''limit'', maxRecord)]) = Inr req"
    by (simp add: querySchemas_def mapToDomain_def fetchResponseWithPayload_sent Let_def
        split: sum.splits)
  from signatureRequest_Inr [OF sr] obtain base where
    b: "new_Request env (apiBase c @ ''/domains/'' @ domain c @ ''schemas/'') (JStr ''post'')
          [(''headerContentType'', contentTypeJSON)]
          (Some (bodyContent env (JObj [(''offset'', queryStart), (''limit'', maxRecord)]))) = Inr base"
    and r: "req_url req = req_url base" "req_method req = req_method base" "req_body req = req_body base"
    by auto
  from new_Request_Inr [OF b] r
  show "req_url req = apiBase c @ ''/domains/'' @ domain c @ ''schemas/''
     \<and> req_method req = ''POST''
     \<and> req_body req = Some (JSON_stringify env (JObj [(''offset'', queryStart), (''limit'', maxRecord)]))"
    by (simp add: normalize_method_post bodyContent_def)
qed

theorem querySchemas_request_witness:
  "map req_url (snd (querySchemas demo_platform demo_attempted (JNum (Finite 0)) (JNum (Finite 20))))
     = [''http://localhost:8080/api/v1/domains/systemschemas/'']
   \<and> ''http://localhost:8080/api/v1/domains/systemschemas/''
       \<noteq> apiBase demo_attempted @ ''/domains/'' @ domain demo_attempted @ ''/schemas/''
   \<and> map req_method (snd (querySchemas demo_platform demo_attempted (JNum (Finite 0)) (JNum (Finite 20)))) = [''POST'']"
proof -
  have u: "mapToDomain demo_attempted ''schemas/'' = ''http://localhost:8080/api/v1/domains/systemschemas/''"
    by (simp add: mapToDomain_def demo_attempted_eval)
  have "\<exists>req. snd (querySchemas demo_platform demo_attempted (JNum (Finite 0)) (JNum (Finite 20))) = [req]"
    by (simp add: querySchemas_def u fetchResponseWithPayload_sent demo_query_request Let_def)
  then obtain req where sent: "snd (querySchemas demo_platform demo_attempted (JNum (Finite 0)) (JNum (Finite 20))) = [req]"
    by blast
  have f: "apiBase demo_attempted = ''http://localhost:8080/api/v1''" "domain demo_attempted = ''system''"
    by (simp_all add: demo_attempted_eval)
  from querySchemas_request [of demo_platform demo_attempted "JNum (Finite 0)" "JNum (Finite 20)"] sent
  show ?thesis
    by (simp add: f)
qed

subsection \<open>C7: parsing the response envelope\<close>

text \<open>
  Claim C7 says that a non-success status gives a transport error with status code and
  text, a non-zero \<open>error_code\<close> a protocol error with the message, and \<open>error_code = 0\<close>
  the data field. The code calls the boolean \<open>resp.ok\<close>: whatever the response is,
  \<open>#parseResponse\<close> and \<open>#getResult\<close> end in the TypeError of that call (or in the
  error \<open>fetch\<close> rejected with).
\<close>

theorem parseResponse_always_throws:
  "fst (parseResponse env req) =
     (case fetch env req of
        Inl e \<Rightarrow> Inl e
      | Inr resp \<Rightarrow> Inl (TypeError ''resp.ok is not a function''))
   \<and> fst (getResult env req) = fst (parseResponse env req)
   \<and> snd (getResult env req) = [req]"
  by (simp add: getResult_def parseResponse_def js_call_def split: sum.splits)

subsection \<open>C8: session id and nonce in the signed content\<close>

text \<open>
  Claim C8 says that the handshake content has no session id, that every signed content
  after the handshake carries the session id the most recent successful handshake
  returned, and that its nonce is the one generated in that handshake. The code signs
  the handshake content of lines 90 to 95 (access, timestamp, nonce, signature
  algorithm, with the nonce just generated) and later signs the stored nonce, as
  claimed. It never stores a returned session id: the only assignment to \<open>sessionID\<close>
  is line 106, after the request of line 105, and that request always throws (the
  defect of C2). Whatever the backend would answer, the \<open>id\<close> signed after
  \<open>connectToDomain\<close> is the session id the client held before the call.
\<close>

theorem session_id_never_stored:
  "sessionID (fst (snd (connectToDomain env c host port domainName))) = sessionID c
   \<and> map_of (signatureContent env (fst (snd (connectToDomain env c host port domainName)))
               meth pathname payload) ''id'' = Some (sessionID c)
   \<and> (domainName \<noteq> '''' \<and> \<not> js_le env port (Finite 0) \<and> \<not> js_gt env port (Finite 65535) \<longrightarrow>
        fst (connectToDomain env c host port domainName)
          = (case ed25519_sign env (JSON_stringify env (JObj
                    [(''access'', JStr (accessID c)),
                     (''timestamp'', JStr (toISOString_now env)),
                     (''nonce'', JStr (Strings_random env 16)),
                     (''signature_algorithm'', JStr ''ed25519'')])) (privateKey c) of
               Inl e \<Rightarrow> Inl e
             | Inr s \<Rightarrow> Inl (TypeError ''headers.append is not a function''))
        \<and> map_of (signatureContent env (fst (snd (connectToDomain env c host port domainName)))
               meth pathname payload) ''nonce'' = Some (JStr (Strings_random env 16)))"
proof -
  have same: "sessionID (fst (snd (connectToDomain env c host port domainName))) = sessionID c"
  proof (cases "domainName = '''' \<or> js_le env port (Finite 0) \<or> js_gt env port (Finite 65535)")
    case True
    then show ?thesis
      by (simp add: connectToDomain_rejected)
  next
    case False
    then show ?thesis
      by (simp add: connectToDomain_past_validation Let_def split: sum.splits)
  qed
  have id_of: "\<And>c'. map_of (signatureContent env c' meth pathname payload) ''id'' = Some (sessionID c')"
    by (simp add: signatureContent_def Let_def)
  have nonce_of: "\<And>c'. map_of (signatureContent env c' meth pathname payload) ''nonce''
                    = Some (JStr (nonce c'))"
    by (simp add: signatureContent_def Let_def)
  have valid: "fst (connectToDomain env c host port domainName)
          = (case ed25519_sign env (JSON_stringify env (JObj
                    [(''access'', JStr (accessID c)),
                     (''timestamp'', JStr (toISOString_now env)),
                     (''nonce'', JStr (Strings_random env 16)),
                     (''signature_algorithm'', JStr ''ed25519'')])) (privateKey c) of
               Inl e \<Rightarrow> Inl e
             | Inr s \<Rightarrow> Inl (TypeError ''headers.append is not a function''))
        \<and> nonce (fst (snd (connectToDomain env c host port domainName))) = Strings_random env 16"
    if "domainName \<noteq> '''' \<and> \<not> js_le env port (Finite 0) \<and> \<not> js_gt env port (Finite 65535)"
    using that
    by (simp add: connectToDomain_past_validation handshakeContent_def signatureMethodEd25519_def
        Let_def split: sum.splits)
  from same id_of nonce_of valid show ?thesis
    by simp
qed

theorem session_id_never_stored_witness:
  "JSON_parse demo_platform demo_session_text
     = Inr (JObj [(''session'', JStr ''abc''), (''timeout'', JNum (Finite 30)), (''address'', JStr ''10.0.0.2'')])
   \<and> fst (connectToDomain demo_platform demo_client ''localhost'' (JNum (Finite 8080)) ''system'')
       = Inl (TypeError ''headers.append is not a function'')
   \<and> sessionID demo_attempted = JStr ''''
   \<and> map_of (signatureContent demo_platform demo_attempted (JStr ''post'')
               ''/api/v1/domains/systemschemas/''
               (JObj [(''offset'', JNum (Finite 0)), (''limit'', JNum (Finite 20))])) ''id'' = Some (JStr '''')
   \<and> map_of (signatureContent demo_platform demo_attempted (JStr ''post'')
               ''/api/v1/domains/systemschemas/''
               (JObj [(''offset'', JNum (Finite 0)), (''limit'', JNum (Finite 20))])) ''nonce''
       = Some (JStr ''Zq3kT9xLm2VbN8aR'')"
proof -
  have g: "\<not> js_le demo_platform (JNum (Finite 8080)) (Finite 0)"
    "\<not> js_gt demo_platform (JNum (Finite 8080)) (Finite 65535)"
    using port_guard_finite [of demo_platform 8080] by simp_all
  have s: "ed25519_sign demo_platform = (\<lambda>content key. Inr (''sig('' @ content @ '')''))"
    "Strings_random demo_platform 16 = ''Zq3kT9xLm2VbN8aR''"
    by (simp_all add: demo_platform_def)
  have fresh: "sessionID demo_client = JStr ''''"
    by (simp add: demo_client_def NewClient_def)
  have parse: "JSON_parse demo_platform demo_session_text
     = Inr (JObj [(''session'', JStr ''abc''), (''timeout'', JNum (Finite 30)), (''address'', JStr ''10.0.0.2'')])"
    by (simp add: demo_platform_def demo_parse_def demo_envelope_def demo_session_text_def)
  from session_id_never_stored [where env = demo_platform and c = demo_client
      and host = "''localhost''" and port = "JNum (Finite 8080)" and domainName = "''system''"
      and meth = "JStr ''post''" and pathname = "''/api/v1/domains/systemschemas/''"
      and payload = "JObj [(''offset'', JNum (Finite 0)), (''limit'', JNum (Finite 20))]"] g s fresh
  have "fst (connectToDomain demo_platform demo_client ''localhost'' (JNum (Finite 8080)) ''system'')
       = Inl (TypeError ''headers.append is not a function'')
   \<and> sessionID demo_attempted = JStr ''''
   \<and> map_of (signatureContent demo_platform demo_attempted (JStr ''post'')
               ''/api/v1/domains/systemschemas/''
               (JObj [(''offset'', JNum (Finite 0)), (''limit'', JNum (Finite 20))])) ''id'' = Some (JStr '''')
   \<and> map_of (signatureContent demo_platform demo_attempted (JStr ''post'')
               ''/api/v1/domains/systemschemas/''
               (JObj [(''offset'', JNum (Finite 0)), (''limit'', JNum (Finite 20))])) ''nonce''
       = Some (JStr ''Zq3kT9xLm2VbN8aR'')"
    by (simp add: demo_attempted_def)
  with parse show ?thesis by simp
qed

subsection \<open>C9: operations before a successful connect\<close>




subsection \<open>C10: the headers of an authenticated request\<close>

text \<open>
  Claim C10 says that every authenticated request carries the session, timestamp,
  signature-algorithm and signature headers, and a content type \<open>application/json\<close>
  exactly when a JSON body is sent. The four protocol headers are there. The content
  type is not: line 245 writes the key \<open>headerContentType\<close> literally, so a request
  with a body carries a header of that name, and its content type is the one the
  Request constructor gives a string body.
\<close>

theorem signatureRequest_headers:
  assumes "signatureRequest env c method url payload = Inr req"
  shows "header_lookup (req_headers req) headerNameSession = Some (to_string env (sessionID c))
     \<and> header_lookup (req_headers req) headerNameTimestamp = Some (toISOString_now env)
     \<and> header_lookup (req_headers req) headerNameSignatureAlgorithm = Some signatureMethodEd25519
     \<and> header_lookup (req_headers req) headerNameSignature \<noteq> None
     \<and> header_lookup (req_headers req) headerContentType
         = (if truthy payload then Some ''text/plain;charset=UTF-8'' else None)
     \<and> header_lookup (req_headers req) ''headerContentType''
         = (if truthy payload then Some contentTypeJSON else None)
     \<and> req_body req = (if truthy payload then Some (JSON_stringify env payload) else None)"
proof -
  from signatureRequest_Inr [OF assms] obtain base signed_content where
    b: "new_Request env (to_string env url) method
          (if truthy payload then [(''headerContentType'', contentTypeJSON)] else [])
          (if truthy payload then Some (bodyContent env payload) else None) = Inr base"
    and r: "req = base\<lparr>req_headers := req_headers base @
                    [(headerNameSession, to_string env (sessionID c)),
                     (headerNameTimestamp, toISOString_now env),
                     (headerNameSignatureAlgorithm, signatureMethodEd25519),
                     (headerNameSignature, btoa env signed_content)]\<rparr>"
    by blast
  show ?thesis
  proof (cases "truthy payload")
    case True
    with new_Request_Inr [OF b] r show ?thesis
      by (simp add: header_lookup_Cons header_lookup_Nil upper_names const_defs bodyContent_def)
  next
    case False
    with new_Request_Inr [OF b] r show ?thesis
      by (simp add: header_lookup_Cons header_lookup_Nil upper_names const_defs)
  qed
qed

theorem signatureRequest_headers_witness:
  "header_lookup
     (case signatureRequest demo_platform demo_attempted (JStr ''post'')
              (JStr ''http://localhost:8080/api/v1/domains/systemschemas/'')
              (JObj [(''offset'', JNum (Finite 0)), (''limit'', JNum (Finite 20))]) of
            Inl e \<Rightarrow> [] | Inr req \<Rightarrow> req_headers req) ''Content-Type''
     = Some ''text/plain;charset=UTF-8''
   \<and> header_lookup
     (case signatureRequest demo_platform demo_attempted (JStr ''post'')
              (JStr ''http://localhost:8080/api/v1/domains/systemschemas/'')
              (JObj [(''offset'', JNum (Finite 0)), (''limit'', JNum (Finite 20))]) of
            Inl e \<Rightarrow> [] | Inr req \<Rightarrow> req_headers req) ''headerContentType''
     = Some ''application/json''
   \<and> header_lookup
     (case signatureRequest demo_platform demo_attempted (JStr ''post'')
              (JStr ''http://localhost:8080/api/v1/domains/systemschemas/'')
              (JObj [(''offset'', JNum (Finite 0)), (''limit'', JNum (Finite 20))]) of
            Inl e \<Rightarrow> [] | Inr req \<Rightarrow> req_headers req) ''Taiyi-SignatureAlgorithm''
     = Some ''ed25519''"
proof -
  obtain req where req: "signatureRequest demo_platform demo_attempted (JStr ''post'')
              (JStr ''http://localhost:8080/api/v1/domains/systemschemas/'')
              (JObj [(''offset'', JNum (Finite 0)), (''limit'', JNum (Finite 20))]) = Inr req"
    using demo_query_request by blast
  from signatureRequest_headers [OF req] show ?thesis
    by (simp add: req const_defs)
qed

end
